theory Spec2Isabelle
  imports Complex_Main
begin

section \<open>The GMC model of multivae/models/gmc/gmc_model.py\<close>

text \<open>
  The embedding follows the Python class \<open>GMC\<close> method by method. Scalars of torch
  tensors are modelled as real numbers (exact arithmetic: rounding, overflow and NaN of
  IEEE floats are outside this model); a second model of the loss, over scalars with
  overflow and NaN, follows it. A 2-D tensor is the list of its rows. A Python
  \<open>dict\<close> (and torch's \<open>ModuleDict\<close>) is an association list in insertion order; its keys
  are distinct, which the theorems assume where they need it.
  Every \<open>raise\<close> and every failing library call is a value \<open>Inl e\<close>.
\<close>

subsection \<open>Values, errors, dictionaries\<close>

type_synonym tensor = "real list list"

text \<open>
  The exceptions of the module. \<open>Raised x\<close> is an exception \<open>x\<close> that escapes from a call
  of an encoder (code outside this module); the other constructors are the exception
  classes raised by the statements of the module itself and by the torch operations it
  calls. \<open>KeyError k\<close> is a \<open>KeyError\<close> about the key or the module name \<open>k\<close>.
\<close>

datatype error =
    AssertionError
  | AttributeError
  | KeyError string
  | TypeError
  | RuntimeError
  | Raised string

text \<open>
  Sequencing: the statement after a failing one is not run, the exception propagates.
\<close>

definition bindE :: "error + 'a \<Rightarrow> ('a \<Rightarrow> error + 'b) \<Rightarrow> error + 'b" where
  "bindE x f = (case x of Inl e \<Rightarrow> Inl e | Inr v \<Rightarrow> f v)"

text \<open>What an encoder is called with: one tensor, or the whole mapping \<open>inputs.data\<close>.\<close>

datatype arg = Tensor tensor | Dict "(string \<times> tensor) list"

text \<open>\<open>d[k]\<close>, \<open>k in d\<close> and \<open>d[k] = v\<close> on a dictionary.\<close>

definition getitem :: "(string \<times> 'v) list \<Rightarrow> string \<Rightarrow> error + 'v" where
  "getitem d k = (case map_of d k of None \<Rightarrow> Inl (KeyError k) | Some v \<Rightarrow> Inr v)"

definition contains :: "(string \<times> 'v) list \<Rightarrow> string \<Rightarrow> bool" where
  "contains d k = (map_of d k \<noteq> None)"

fun setitem :: "(string \<times> 'v) list \<Rightarrow> string \<Rightarrow> 'v \<Rightarrow> (string \<times> 'v) list" where
  "setitem [] k v = [(k, v)]"
| "setitem ((k', v') # d) k v = (if k' = k then (k, v) # d else (k', v') # setitem d k v)"

subsection \<open>Encoders, configuration, model\<close>

text \<open>
  A \<open>ModelOutput\<close> object with its field \<open>embedding\<close>. An encoder returns one whose embedding
  is a tensor.
\<close>

datatype 'a ModelOutput = ModelOutput (embedding: 'a)

text \<open>
  An encoder object: the two \<open>isinstance\<close> tests the module makes, the attribute
  \<open>latent_dim\<close>, and the call, which returns its output object or raises.
  Record fields share one name space, so the attribute \<open>latent_dim\<close> of an encoder is
  \<open>enc_latent_dim\<close>, and the fields of the configuration that \<open>self\<close> copies under the same
  name carry the prefix \<open>cfg_\<close>.
\<close>

record encoder =
  is_BaseEncoder :: bool
  is_BaseJointEncoder :: bool
  enc_latent_dim :: int
  call :: "arg \<Rightarrow> string + tensor ModelOutput"

record GMCConfig =
  cfg_n_modalities :: int
  embedding_dim :: int
  cfg_common_dim :: int
  cfg_temperature :: real
  cfg_use_all_singular_values :: bool

text \<open>
  The attributes of \<open>self\<close>. \<open>joint_encoder\<close> and \<open>shared_encoder\<close> are \<open>None\<close> until their
  setter has run.
\<close>

record GMC =
  config :: GMCConfig
  n_modalities :: int
  latent_dim :: int
  common_dim :: int
  temperature :: real
  use_all_singular_values :: bool
  networks :: "(string \<times> encoder) list"
  joint_encoder :: "encoder option"
  shared_encoder :: "encoder option"

text \<open>
  Modelled from the spec: \<open>MultimodalBaseDataset\<close> is not among the sources. By section 6
  of the specification a batch exposes the mapping from modality name to tensor, and
  iterating over it yields the names of the modalities present.
\<close>

record batch =
  data :: "(string \<times> tensor) list"


subsection \<open>Construction\<close>

text \<open>
  \<open>self.networks[m] = v\<close> on torch's \<open>ModuleDict\<close>: the assignment registers the module
  under its name with \<open>add_module\<close>, which raises \<open>KeyError\<close> when the name is an attribute of
  the dictionary object without being one of its modules, when it contains a dot, and when
  it is empty. Which names are attributes of a \<open>ModuleDict\<close> without modules (its methods and
  fields, such as \<open>train\<close> or \<open>keys\<close>) is a table of torch, which is not among the sources:
  the predicate \<open>attrs\<close> is a parameter. \<open>hasattr\<close> also holds of the names of the registered
  modules.
\<close>

definition hasattr :: "(string \<Rightarrow> bool) \<Rightarrow> (string \<times> 'v) list \<Rightarrow> string \<Rightarrow> bool" where
  "hasattr attrs modules name = (attrs name \<or> contains modules name)"

definition ModuleDict_setitem ::
  "(string \<Rightarrow> bool) \<Rightarrow> (string \<times> 'v) list \<Rightarrow> string \<Rightarrow> 'v \<Rightarrow> error + (string \<times> 'v) list" where
  "ModuleDict_setitem attrs modules name v =
     (if hasattr attrs modules name \<and> \<not> contains modules name then Inl (KeyError name)
      else if CHR ''.'' \<in> set name then Inl (KeyError name)
      else if name = [] then Inl (KeyError name)
      else Inr (setitem modules name v))"

text \<open>The body of the loop \<open>for m in networks\<close> of \<open>set_networks\<close>, over the keys still to visit.\<close>

fun set_networks_loop ::
  "(string \<Rightarrow> bool) \<Rightarrow> GMC \<Rightarrow> (string \<times> encoder) list \<Rightarrow> string list \<Rightarrow> error + GMC" where
  "set_networks_loop attrs self nets [] = Inr self"
| "set_networks_loop attrs self nets (m # ms) =
     bindE (getitem nets m) (\<lambda>net.
       if \<not> is_BaseEncoder net then Inl AttributeError
       else if enc_latent_dim net \<noteq> common_dim self then Inl AttributeError
       else bindE (ModuleDict_setitem attrs (networks self) m net) (\<lambda>d.
              set_networks_loop attrs (self\<lparr>networks := d\<rparr>) nets ms))"

definition set_networks ::
  "(string \<Rightarrow> bool) \<Rightarrow> GMC \<Rightarrow> (string \<times> encoder) list \<Rightarrow> error + GMC" where
  "set_networks attrs self nets =
     (let self = self\<lparr>networks := []\<rparr> in
      if int (length nets) \<noteq> n_modalities self then Inl AssertionError
      else set_networks_loop attrs self nets (map fst nets))"

definition set_shared_encoder :: "GMC \<Rightarrow> encoder \<Rightarrow> error + GMC" where
  "set_shared_encoder self shared =
     (if \<not> is_BaseEncoder shared then Inl AttributeError
      else if enc_latent_dim shared \<noteq> latent_dim self then Inl AttributeError
      else Inr (self\<lparr>shared_encoder := Some shared\<rparr>))"

definition set_joint_encoder :: "GMC \<Rightarrow> encoder \<Rightarrow> error + GMC" where
  "set_joint_encoder self joint =
     (if \<not> is_BaseJointEncoder joint then Inl AttributeError
      else if \<not> (enc_latent_dim joint \<noteq> common_dim self) then Inl AttributeError
      else Inr (self\<lparr>joint_encoder := Some joint\<rparr>))"

text \<open>Lines 30 to 35 of \<open>__init__\<close>: the attributes copied from the configuration.\<close>

definition init_self :: "GMCConfig \<Rightarrow> GMC" where
  "init_self cfg =
     \<lparr>config = cfg,
      n_modalities = cfg_n_modalities cfg,
      latent_dim = embedding_dim cfg,
      common_dim = cfg_common_dim cfg,
      temperature = cfg_temperature cfg,
      use_all_singular_values = cfg_use_all_singular_values cfg,
      networks = [],
      joint_encoder = None,
      shared_encoder = None\<rparr>"

text \<open>\<open>__init__\<close>; its first argument is the attribute table of torch's \<open>ModuleDict\<close>.\<close>

definition GMC_init ::
  "(string \<Rightarrow> bool) \<Rightarrow> GMCConfig \<Rightarrow> (string \<times> encoder) list \<Rightarrow> encoder \<Rightarrow> encoder \<Rightarrow>
     error + GMC" where
  "GMC_init attrs cfg processors joint shared =
     (let self = init_self cfg in
      bindE (set_networks attrs self processors) (\<lambda>self.
      bindE (set_joint_encoder self joint) (\<lambda>self.
      set_shared_encoder self shared)))"

subsection \<open>Encoding\<close>

text \<open>An attribute of \<open>self\<close> that was never set raises \<open>AttributeError\<close> when read.\<close>

definition getattr :: "'a option \<Rightarrow> error + 'a" where
  "getattr a = (case a of None \<Rightarrow> Inl AttributeError | Some v \<Rightarrow> Inr v)"

text \<open>The call \<open>enc(x)\<close>: the output object of the encoder, or the exception it raises.\<close>

definition apply_enc :: "encoder \<Rightarrow> arg \<Rightarrow> error + tensor ModelOutput" where
  "apply_enc enc x = (case call enc x of Inl exn \<Rightarrow> Inl (Raised exn) | Inr out \<Rightarrow> Inr out)"

text \<open>
  Lines 160 and 163 take the \<open>embedding\<close> of the inner call only: \<open>z\<close> is the whole output
  object of the shared encoder, and line 167 wraps it in a new \<open>ModelOutput\<close>.
\<close>

definition encode ::
  "GMC \<Rightarrow> batch \<Rightarrow> string \<Rightarrow> error + tensor ModelOutput ModelOutput" where
  "encode self inputs cond_mod =
     (if cond_mod = ''all'' then
        bindE (getattr (shared_encoder self)) (\<lambda>shared.
        bindE (getattr (joint_encoder self)) (\<lambda>joint.
        bindE (apply_enc joint (Dict (data inputs))) (\<lambda>joint_out.
        bindE (apply_enc shared (Tensor (embedding joint_out))) (\<lambda>z.
        Inr (ModelOutput z)))))
      else if contains (networks self) cond_mod then
        bindE (getattr (shared_encoder self)) (\<lambda>shared.
        bindE (getitem (networks self) cond_mod) (\<lambda>net.
        bindE (apply_enc net (Dict (data inputs))) (\<lambda>out.
        bindE (apply_enc shared (Tensor (embedding out))) (\<lambda>z.
        Inr (ModelOutput z)))))
      else Inl AttributeError)"

subsection \<open>The torch operations used by the loss\<close>

text \<open>
  Each operation is modelled on the tensors the module applies it to (rank 2, or rank 1
  after a reduction). An elementwise operation of two tensors fails with \<open>RuntimeError\<close>
  unless both have the same shape; broadcasting of a dimension of size one is not
  modelled (on rank-2 embeddings it only arises with an empty or a mismatched batch, where
  a later operation of the loop fails in torch as well). A tensor without rows carries no
  column count.
\<close>

definition same_shape :: "'a list list \<Rightarrow> 'b list list \<Rightarrow> bool" where
  "same_shape a b = (map length a = map length b)"

text \<open>\<open>torch.cat([a, b], dim=0)\<close>: the column counts must agree.\<close>

definition cat0 :: "'a list list \<Rightarrow> 'a list list \<Rightarrow> error + 'a list list" where
  "cat0 a b =
     (if a \<noteq> [] \<and> b \<noteq> [] \<and> length (hd a) \<noteq> length (hd b) then Inl RuntimeError
      else Inr (a @ b))"

definition dot :: "real list \<Rightarrow> real list \<Rightarrow> real" where
  "dot u v = sum_list (map2 (*) u v)"

text \<open>\<open>torch.mm(a, a.t().contiguous())\<close>: entry \<open>(i, j)\<close> is the dot product of rows \<open>i\<close> and \<open>j\<close>.\<close>

definition mm_t :: "tensor \<Rightarrow> tensor" where
  "mm_t a = map (\<lambda>u. map (\<lambda>v. dot u v) a) a"

definition div_scalar :: "tensor \<Rightarrow> real \<Rightarrow> tensor" where
  "div_scalar a c = map (map (\<lambda>x. x / c)) a"

definition exp_t :: "tensor \<Rightarrow> tensor" where
  "exp_t a = map (map exp) a"

definition ones_like :: "tensor \<Rightarrow> tensor" where
  "ones_like a = map (map (\<lambda>_. 1)) a"

definition eye :: "nat \<Rightarrow> tensor" where
  "eye n = map (\<lambda>i. map (\<lambda>j. if i = j then 1 else 0) [0..<n]) [0..<n]"

definition sub :: "tensor \<Rightarrow> tensor \<Rightarrow> error + tensor" where
  "sub a b = (if same_shape a b then Inr (map2 (map2 (-)) a b) else Inl RuntimeError)"

definition mul :: "tensor \<Rightarrow> tensor \<Rightarrow> error + tensor" where
  "mul a b = (if same_shape a b then Inr (map2 (map2 (*)) a b) else Inl RuntimeError)"

definition bool_t :: "tensor \<Rightarrow> bool list list" where
  "bool_t a = map (map (\<lambda>x. x \<noteq> 0)) a"

text \<open>\<open>a.masked_select(mask)\<close>: the selected entries, row by row, as a rank-1 tensor.\<close>

definition masked_select :: "'a list list \<Rightarrow> bool list list \<Rightarrow> error + 'a list" where
  "masked_select a msk =
     (if same_shape a msk
      then Inr (concat (map2 (\<lambda>r mr. map fst (filter snd (zip r mr))) a msk))
      else Inl RuntimeError)"

text \<open>
  \<open>v.view(n, -1)\<close>: \<open>n\<close> rows of equal length; fails when \<open>n\<close> is zero or does not divide the
  number of elements.
\<close>

definition view :: "'a list \<Rightarrow> nat \<Rightarrow> error + 'a list list" where
  "view v n =
     (if n = 0 \<or> length v mod n \<noteq> 0 then Inl RuntimeError
      else Inr (let k = length v div n in map (\<lambda>i. take k (drop (i * k) v)) [0..<n]))"

text \<open>\<open>a.sum(dim=-1)\<close> on a rank-2 tensor.\<close>

definition sum_last :: "tensor \<Rightarrow> real list" where
  "sum_last a = map sum_list a"

definition div_v :: "real list \<Rightarrow> real list \<Rightarrow> error + real list" where
  "div_v a b = (if length a = length b then Inr (map2 (/) a b) else Inl RuntimeError)"

text \<open>
  The accumulator \<open>joint_mod_loss_sum\<close> starts as the Python integer \<open>0\<close> and becomes a tensor
  at the first \<open>+=\<close>; \<open>torch.mean\<close> of a Python integer raises \<open>TypeError\<close>.
\<close>

datatype acc = PyInt int | Vec "real list"

fun iadd :: "acc \<Rightarrow> real list \<Rightarrow> error + acc" where
  "iadd (PyInt n) l = Inr (Vec (map (\<lambda>x. real_of_int n + x) l))"
| "iadd (Vec v) l = (if length v = length l then Inr (Vec (map2 (+) v l)) else Inl RuntimeError)"

fun mean :: "acc \<Rightarrow> error + real" where
  "mean (PyInt n) = Inl TypeError"
| "mean (Vec v) = Inr (sum_list v / real (length v))"

subsection \<open>The contrastive loss\<close>

text \<open>Lines 105 to 111: the exponentiated, temperature-scaled similarity matrix.\<close>

definition sim_matrix :: "real \<Rightarrow> tensor \<Rightarrow> tensor" where
  "sim_matrix temp out = exp_t (div_scalar (mm_t out) temp)"

text \<open>Lines 113 to 120: the mask without the diagonal, the selection and the reshaping.\<close>

definition remove_diagonal :: "nat \<Rightarrow> tensor \<Rightarrow> error + tensor" where
  "remove_diagonal batch_size sim =
     bindE (sub (ones_like sim) (eye (2 * batch_size))) (\<lambda>d.
     let mask_joint_mod = bool_t d in
     bindE (masked_select sim mask_joint_mod) (\<lambda>sel.
     view sel (2 * batch_size)))"

text \<open>Lines 123 to 130: the similarities of the positive pairs, once per anchor.\<close>

definition pos_sim :: "real \<Rightarrow> tensor \<Rightarrow> tensor \<Rightarrow> error + real list" where
  "pos_sim temp joint_z z =
     bindE (mul joint_z z) (\<lambda>p.
     let pos = map (\<lambda>x. exp (x / temp)) (sum_last p) in
     Inr (pos @ pos))"

text \<open>The body of the loop of \<open>infonce\<close> for one modality: its vector of per-row losses.\<close>

definition loss_joint_mod :: "real \<Rightarrow> tensor \<Rightarrow> tensor \<Rightarrow> error + real list" where
  "loss_joint_mod temp joint_z z =
     (let batch_size = length joint_z in
      bindE (cat0 joint_z z) (\<lambda>out_joint_mod.
      bindE (remove_diagonal batch_size (sim_matrix temp out_joint_mod)) (\<lambda>sim_masked.
      bindE (pos_sim temp joint_z z) (\<lambda>pos.
      bindE (div_v pos (sum_last sim_masked)) (\<lambda>q.
      Inr (map (\<lambda>x. - ln x) q))))))"

fun infonce_loop ::
  "real \<Rightarrow> (string \<times> tensor) list \<Rightarrow> tensor \<Rightarrow> acc \<Rightarrow> string list \<Rightarrow> error + acc" where
  "infonce_loop temp modalities_z joint_z joint_mod_loss_sum [] = Inr joint_mod_loss_sum"
| "infonce_loop temp modalities_z joint_z joint_mod_loss_sum (m # ms) =
     bindE (getitem modalities_z m) (\<lambda>z.
     bindE (loss_joint_mod temp joint_z z) (\<lambda>l.
     bindE (iadd joint_mod_loss_sum l) (\<lambda>s.
     infonce_loop temp modalities_z joint_z s ms)))"

definition infonce :: "GMC \<Rightarrow> (string \<times> tensor) list \<Rightarrow> tensor \<Rightarrow> error + real" where
  "infonce self modalities_z joint_z =
     bindE (infonce_loop (temperature self) modalities_z joint_z (PyInt 0)
              (map fst modalities_z)) mean"

subsection \<open>The training step\<close>

text \<open>Lines 84 and 85: the embedding of one modality of the batch.\<close>

definition modality_z :: "GMC \<Rightarrow> batch \<Rightarrow> string \<Rightarrow> error + tensor" where
  "modality_z self inputs m =
     bindE (getitem (networks self) m) (\<lambda>net.
     bindE (getitem (data inputs) m) (\<lambda>x.
     bindE (apply_enc net (Tensor x)) (\<lambda>out.
     let h = embedding out in
     bindE (getattr (shared_encoder self)) (\<lambda>shared.
     bindE (apply_enc shared (Tensor h)) (\<lambda>out.
     Inr (embedding out))))))"



subsection \<open>The loss on floating-point scalars\<close>

text \<open>
  The scalars of a torch tensor are floating-point numbers: an operation whose result is
  too large yields an infinity, an undefined operation yields NaN, and \<open>infonce\<close> clamps
  nothing. In this second model of the loss, which follows the same lines of the source, a
  scalar is a real number, an infinity or NaN. A result of magnitude \<open>2 ^ 128\<close> or more, which
  is beyond the largest number of single precision (the default of torch), overflows; a
  smaller result is kept exact: rounding, underflow and the sign of zero are not modelled.
\<close>

datatype fl = Fin real | PInf | NInf | NaN

definition overflow :: "real \<Rightarrow> fl" where
  "overflow x = (if 2 ^ 128 \<le> x then PInf else if x \<le> - (2 ^ 128) then NInf else Fin x)"

fun neg_fl :: "fl \<Rightarrow> fl" where
  "neg_fl (Fin x) = Fin (- x)"
| "neg_fl PInf = NInf"
| "neg_fl NInf = PInf"
| "neg_fl NaN = NaN"

fun add_fl :: "fl \<Rightarrow> fl \<Rightarrow> fl" where
  "add_fl NaN y = NaN"
| "add_fl x NaN = NaN"
| "add_fl PInf NInf = NaN"
| "add_fl NInf PInf = NaN"
| "add_fl PInf y = PInf"
| "add_fl x PInf = PInf"
| "add_fl NInf y = NInf"
| "add_fl x NInf = NInf"
| "add_fl (Fin a) (Fin b) = overflow (a + b)"

definition sub_fl :: "fl \<Rightarrow> fl \<Rightarrow> fl" where
  "sub_fl x y = add_fl x (neg_fl y)"

fun mul_fl :: "fl \<Rightarrow> fl \<Rightarrow> fl" where
  "mul_fl NaN y = NaN"
| "mul_fl x NaN = NaN"
| "mul_fl (Fin a) (Fin b) = overflow (a * b)"
| "mul_fl (Fin a) PInf = (if a = 0 then NaN else if 0 < a then PInf else NInf)"
| "mul_fl (Fin a) NInf = (if a = 0 then NaN else if 0 < a then NInf else PInf)"
| "mul_fl PInf (Fin b) = (if b = 0 then NaN else if 0 < b then PInf else NInf)"
| "mul_fl NInf (Fin b) = (if b = 0 then NaN else if 0 < b then NInf else PInf)"
| "mul_fl PInf PInf = PInf"
| "mul_fl PInf NInf = NInf"
| "mul_fl NInf PInf = NInf"
| "mul_fl NInf NInf = PInf"

fun div_fl :: "fl \<Rightarrow> fl \<Rightarrow> fl" where
  "div_fl NaN y = NaN"
| "div_fl x NaN = NaN"
| "div_fl (Fin a) (Fin b) =
     (if b = 0 then (if a = 0 then NaN else if 0 < a then PInf else NInf)
      else overflow (a / b))"
| "div_fl (Fin a) PInf = Fin 0"
| "div_fl (Fin a) NInf = Fin 0"
| "div_fl PInf (Fin b) = (if 0 \<le> b then PInf else NInf)"
| "div_fl NInf (Fin b) = (if 0 \<le> b then NInf else PInf)"
| "div_fl PInf PInf = NaN"
| "div_fl PInf NInf = NaN"
| "div_fl NInf PInf = NaN"
| "div_fl NInf NInf = NaN"

fun exp_fl :: "fl \<Rightarrow> fl" where
  "exp_fl (Fin x) = overflow (exp x)"
| "exp_fl PInf = PInf"
| "exp_fl NInf = Fin 0"
| "exp_fl NaN = NaN"

fun log_fl :: "fl \<Rightarrow> fl" where
  "log_fl (Fin x) = (if x < 0 then NaN else if x = 0 then NInf else Fin (ln x))"
| "log_fl PInf = PInf"
| "log_fl NInf = NaN"
| "log_fl NaN = NaN"

text \<open>A sum of scalars, accumulated from the left.\<close>

definition sum_fl :: "fl list \<Rightarrow> fl" where
  "sum_fl xs = foldl add_fl (Fin 0) xs"

definition dot_fl :: "fl list \<Rightarrow> fl list \<Rightarrow> fl" where
  "dot_fl u v = sum_fl (map2 mul_fl u v)"

definition mm_t_fl :: "fl list list \<Rightarrow> fl list list" where
  "mm_t_fl a = map (\<lambda>u. map (\<lambda>v. dot_fl u v) a) a"

definition div_scalar_fl :: "fl list list \<Rightarrow> fl \<Rightarrow> fl list list" where
  "div_scalar_fl a c = map (map (\<lambda>x. div_fl x c)) a"

definition exp_t_fl :: "fl list list \<Rightarrow> fl list list" where
  "exp_t_fl a = map (map exp_fl) a"

definition ones_like_fl :: "fl list list \<Rightarrow> fl list list" where
  "ones_like_fl a = map (map (\<lambda>_. Fin 1)) a"

definition eye_fl :: "nat \<Rightarrow> fl list list" where
  "eye_fl n = map (\<lambda>i. map (\<lambda>j. if i = j then Fin 1 else Fin 0) [0..<n]) [0..<n]"

definition sub_t_fl :: "fl list list \<Rightarrow> fl list list \<Rightarrow> error + fl list list" where
  "sub_t_fl a b = (if same_shape a b then Inr (map2 (map2 sub_fl) a b) else Inl RuntimeError)"

definition mul_t_fl :: "fl list list \<Rightarrow> fl list list \<Rightarrow> error + fl list list" where
  "mul_t_fl a b = (if same_shape a b then Inr (map2 (map2 mul_fl) a b) else Inl RuntimeError)"

definition bool_t_fl :: "fl list list \<Rightarrow> bool list list" where
  "bool_t_fl a = map (map (\<lambda>x. x \<noteq> Fin 0)) a"

definition sum_last_fl :: "fl list list \<Rightarrow> fl list" where
  "sum_last_fl a = map sum_fl a"

definition div_v_fl :: "fl list \<Rightarrow> fl list \<Rightarrow> error + fl list" where
  "div_v_fl a b = (if length a = length b then Inr (map2 div_fl a b) else Inl RuntimeError)"

datatype acc_fl = PyInt_fl int | Vec_fl "fl list"

fun iadd_fl :: "acc_fl \<Rightarrow> fl list \<Rightarrow> error + acc_fl" where
  "iadd_fl (PyInt_fl n) l = Inr (Vec_fl (map (\<lambda>x. add_fl (Fin (real_of_int n)) x) l))"
| "iadd_fl (Vec_fl v) l =
     (if length v = length l then Inr (Vec_fl (map2 add_fl v l)) else Inl RuntimeError)"

fun mean_fl :: "acc_fl \<Rightarrow> error + fl" where
  "mean_fl (PyInt_fl n) = Inl TypeError"
| "mean_fl (Vec_fl v) = Inr (div_fl (sum_fl v) (Fin (real (length v))))"

definition sim_matrix_fl :: "real \<Rightarrow> fl list list \<Rightarrow> fl list list" where
  "sim_matrix_fl temp out = exp_t_fl (div_scalar_fl (mm_t_fl out) (Fin temp))"

definition remove_diagonal_fl :: "nat \<Rightarrow> fl list list \<Rightarrow> error + fl list list" where
  "remove_diagonal_fl batch_size sim =
     bindE (sub_t_fl (ones_like_fl sim) (eye_fl (2 * batch_size))) (\<lambda>d.
     let mask_joint_mod = bool_t_fl d in
     bindE (masked_select sim mask_joint_mod) (\<lambda>sel.
     view sel (2 * batch_size)))"

definition pos_sim_fl :: "real \<Rightarrow> fl list list \<Rightarrow> fl list list \<Rightarrow> error + fl list" where
  "pos_sim_fl temp joint_z z =
     bindE (mul_t_fl joint_z z) (\<lambda>p.
     let pos = map (\<lambda>x. exp_fl (div_fl x (Fin temp))) (sum_last_fl p) in
     Inr (pos @ pos))"

definition loss_joint_mod_fl :: "real \<Rightarrow> fl list list \<Rightarrow> fl list list \<Rightarrow> error + fl list" where
  "loss_joint_mod_fl temp joint_z z =
     (let batch_size = length joint_z in
      bindE (cat0 joint_z z) (\<lambda>out_joint_mod.
      bindE (remove_diagonal_fl batch_size (sim_matrix_fl temp out_joint_mod)) (\<lambda>sim_masked.
      bindE (pos_sim_fl temp joint_z z) (\<lambda>pos.
      bindE (div_v_fl pos (sum_last_fl sim_masked)) (\<lambda>q.
      Inr (map (\<lambda>x. neg_fl (log_fl x)) q))))))"

fun infonce_loop_fl ::
  "real \<Rightarrow> (string \<times> fl list list) list \<Rightarrow> fl list list \<Rightarrow> acc_fl \<Rightarrow> string list \<Rightarrow>
     error + acc_fl" where
  "infonce_loop_fl temp modalities_z joint_z joint_mod_loss_sum [] = Inr joint_mod_loss_sum"
| "infonce_loop_fl temp modalities_z joint_z joint_mod_loss_sum (m # ms) =
     bindE (getitem modalities_z m) (\<lambda>z.
     bindE (loss_joint_mod_fl temp joint_z z) (\<lambda>l.
     bindE (iadd_fl joint_mod_loss_sum l) (\<lambda>s.
     infonce_loop_fl temp modalities_z joint_z s ms)))"

definition infonce_fl :: "GMC \<Rightarrow> (string \<times> fl list list) list \<Rightarrow> fl list list \<Rightarrow> error + fl" where
  "infonce_fl self modalities_z joint_z =
     bindE (infonce_loop_fl (temperature self) modalities_z joint_z (PyInt_fl 0)
              (map fst modalities_z)) mean_fl"


subsection \<open>Shapes\<close>

text \<open>A tensor of shape \<open>(B, D)\<close>: \<open>B\<close> rows of \<open>D\<close> entries.\<close>

definition has_shape :: "nat \<Rightarrow> nat \<Rightarrow> tensor \<Rightarrow> bool" where
  "has_shape B D t = (length t = B \<and> list_all (\<lambda>r. length r = D) t)"

subsection \<open>Example objects\<close>

text \<open>
  A modality encoder or projection head that returns the tensor it is given, and raises,
  as a torch layer does, when it is called with a dictionary.
\<close>

definition identity_encoder :: "int \<Rightarrow> encoder" where
  "identity_encoder d =
     \<lparr>is_BaseEncoder = True, is_BaseJointEncoder = False, enc_latent_dim = d,
      call = (\<lambda>x. case x of Tensor t \<Rightarrow> Inr (ModelOutput t) | Dict kv \<Rightarrow> Inl ''TypeError'')\<rparr>"

text \<open>A joint encoder that returns the tensor of the first modality of the mapping.\<close>

definition first_joint_encoder :: "int \<Rightarrow> encoder" where
  "first_joint_encoder d =
     \<lparr>is_BaseEncoder = False, is_BaseJointEncoder = True, enc_latent_dim = d,
      call = (\<lambda>x. case x of Tensor t \<Rightarrow> Inl ''TypeError''
                   | Dict kv \<Rightarrow> (case kv of [] \<Rightarrow> Inl ''IndexError''
                                | (k, t) # _ \<Rightarrow> Inr (ModelOutput t)))\<rparr>"

text \<open>Some attribute names of a \<open>ModuleDict\<close>.\<close>

definition ex_attrs :: "string \<Rightarrow> bool" where
  "ex_attrs name = (name \<in> set [''train'', ''training'', ''forward'', ''keys'', ''items'',
     ''values'', ''pop'', ''clear'', ''update''])"

definition ex_config :: GMCConfig where
  "ex_config = \<lparr>cfg_n_modalities = 2, embedding_dim = 1, cfg_common_dim = 1,
     cfg_temperature = 1, cfg_use_all_singular_values = False\<rparr>"

definition ex_processors :: "(string \<times> encoder) list" where
  "ex_processors = [(''a'', identity_encoder 1), (''b'', identity_encoder 1)]"

text \<open>The model that \<open>GMC_init\<close> builds from these, with a joint encoder of dimension 2.\<close>

definition ex_model :: GMC where
  "ex_model = (init_self ex_config)
     \<lparr>networks := ex_processors,
      joint_encoder := Some (first_joint_encoder 2),
      shared_encoder := Some (identity_encoder 1)\<rparr>"

definition ex_inputs :: batch where
  "ex_inputs = \<lparr>data = [(''a'', [[1], [0]]), (''b'', [[0], [1]])]\<rparr>"


definition ex_zeros :: tensor where
  "ex_zeros = [[0], [0]]"

section \<open>Properties\<close>

subsection \<open>Lists: selecting by a mask, reshaping\<close>

lemma filter_zip_all:
  "length r = length bs \<Longrightarrow> \<forall>b\<in>set bs. b \<Longrightarrow> map fst (filter snd (zip r bs)) = r"
  by (induction r bs rule: list_induct2) auto

lemma select_row:
  assumes "length r = n" "i < n"
  shows "map fst (filter snd (zip r (map (\<lambda>j. j \<noteq> i) [0..<n]))) = take i r @ drop (Suc i) r"
proof -
  have u: "[0..<n] = [0..<i] @ [i] @ [Suc i..<n]"
    using assms(2) by (metis append_Cons append_Nil le_add1 le_add_same_cancel1 less_imp_add_positive upt_add_eq_append upt_conv_Cons)
  have r: "r = take i r @ [r ! i] @ drop (Suc i) r"
    using assms by (simp add: Cons_nth_drop_Suc)
  have "zip r (map (\<lambda>j. j \<noteq> i) [0..<n])
      = zip (take i r) (map (\<lambda>j. j \<noteq> i) [0..<i]) @ [(r ! i, False)]
        @ zip (drop (Suc i) r) (map (\<lambda>j. j \<noteq> i) [Suc i..<n])"
    apply (subst r, subst u)
    using assms by (simp del: upt_Suc)
  then show ?thesis
    using assms by (simp add: filter_zip_all)
qed

lemma take_drop_concat:
  "\<forall>r\<in>set rows. length r = k \<Longrightarrow> i < length rows \<Longrightarrow>
     take k (drop (i * k) (concat rows)) = rows ! i"
proof (induction rows arbitrary: i)
  case Nil then show ?case by simp
next
  case (Cons r rows)
  show ?case
  proof (cases i)
    case 0 with Cons.prems show ?thesis by simp
  next
    case (Suc j)
    with Cons.prems have "take k (drop (j * k) (concat rows)) = rows ! j"
      by (intro Cons.IH) auto
    with Suc Cons.prems show ?thesis by (simp add: add.commute)
  qed
qed

lemma length_concat_const:
  "\<forall>r\<in>set rows. length r = k \<Longrightarrow> length (concat rows) = length rows * k"
  by (induction rows) auto

lemma view_concat:
  assumes "\<forall>r\<in>set rows. length r = k" "length rows = n" "0 < n"
  shows "view (concat rows) n = Inr rows"
proof -
  have len: "length (concat rows) = n * k"
    using assms length_concat_const by blast
  have "map (\<lambda>i. take k (drop (i * k) (concat rows))) [0..<n] = rows"
    using assms by (intro nth_equalityI) (auto simp: take_drop_concat)
  then show ?thesis
    using assms len by (simp add: view_def)
qed

subsection \<open>The similarity matrix and its masking\<close>

lemma length_sim_matrix: "length (sim_matrix temp out) = length out"
  by (simp add: sim_matrix_def exp_t_def div_scalar_def mm_t_def)

lemma length_sim_matrix_row:
  "i < length out \<Longrightarrow> length (sim_matrix temp out ! i) = length out"
  by (simp add: sim_matrix_def exp_t_def div_scalar_def mm_t_def)

lemma sim_matrix_nth:
  "i < length out \<Longrightarrow> j < length out \<Longrightarrow>
     sim_matrix temp out ! i ! j = exp (dot (out ! i) (out ! j) / temp)"
  by (simp add: sim_matrix_def exp_t_def div_scalar_def mm_t_def)

lemma square_rows: 
  assumes "length sim = n" "\<forall>r\<in>set sim. length r = n"
  shows "map length sim = replicate n n"
  using assms by (intro nth_equalityI) auto

lemma mask_square:
  assumes "length sim = n" "\<forall>r\<in>set sim. length r = n"
  shows "bindE (sub (ones_like sim) (eye n)) (\<lambda>d. Inr (bool_t d)) =
           Inr (map (\<lambda>i. map (\<lambda>j. j \<noteq> i) [0..<n]) [0..<n])"
proof -
  have ss: "same_shape (ones_like sim) (eye n)"
    using square_rows[OF assms]
    by (simp add: same_shape_def ones_like_def eye_def comp_def map_replicate_const)
  have "map2 (map2 (-)) (ones_like sim) (eye n)
        = map (\<lambda>i. map (\<lambda>j. 1 - (if i = j then 1 else 0)) [0..<n]) [0..<n]"
    using assms by (intro nth_equalityI) (auto simp: ones_like_def eye_def)
  then show ?thesis
    using ss by (simp add: sub_def bindE_def bool_t_def comp_def cong: map_cong)
qed


lemma masked_select_square:
  assumes "length sim = n" "\<forall>r\<in>set sim. length r = n"
  shows "masked_select sim (map (\<lambda>i. map (\<lambda>j. j \<noteq> i) [0..<n]) [0..<n]) =
           Inr (concat (map (\<lambda>i. take i (sim ! i) @ drop (Suc i) (sim ! i)) [0..<n]))"
proof -
  have ss: "same_shape sim (map (\<lambda>i. map (\<lambda>j. j \<noteq> i) [0..<n]) [0..<n])"
    using square_rows[OF assms] by (simp add: same_shape_def comp_def map_replicate_const)
  have "map2 (\<lambda>r mr. map fst (filter snd (zip r mr))) sim
          (map (\<lambda>i. map (\<lambda>j. j \<noteq> i) [0..<n]) [0..<n])
        = map (\<lambda>i. take i (sim ! i) @ drop (Suc i) (sim ! i)) [0..<n]"
    using assms by (intro nth_equalityI) (auto simp: select_row)
  then show ?thesis
    using ss by (simp add: masked_select_def)
qed

lemma remove_diagonal_rows:
  assumes "length sim = 2 * B" "\<forall>r\<in>set sim. length r = 2 * B" "0 < B"
  shows "remove_diagonal B sim =
           Inr (map (\<lambda>i. take i (sim ! i) @ drop (Suc i) (sim ! i)) [0..<2 * B])"
proof -
  let ?rows = "map (\<lambda>i. take i (sim ! i) @ drop (Suc i) (sim ! i)) [0..<2 * B]"
  have m: "sub (ones_like sim) (eye (2 * B)) = Inr d \<Longrightarrow>
             bool_t d = map (\<lambda>i. map (\<lambda>j. j \<noteq> i) [0..<2 * B]) [0..<2 * B]" for d
    using mask_square[OF assms(1,2)] by (simp add: bindE_def)
  have ok: "\<exists>d. sub (ones_like sim) (eye (2 * B)) = Inr d"
    using mask_square[OF assms(1,2)] by (cases "sub (ones_like sim) (eye (2 * B))") (auto simp: bindE_def)
  have rows: "\<forall>r\<in>set ?rows. length r = 2 * B - 1"
    using assms by auto
  have v: "view (concat ?rows) (2 * B) = Inr ?rows"
    using assms(3) by (intro view_concat[OF rows]) auto
  from ok obtain d where d: "sub (ones_like sim) (eye (2 * B)) = Inr d" by blast
  show ?thesis
    unfolding remove_diagonal_def d
    using m[OF d] masked_select_square[OF assms(1,2)] v
    by (simp add: bindE_def)
qed

lemma sum_list_without:
  assumes "i < length r"
  shows "sum_list (take i r @ drop (Suc i) r) = (\<Sum>j\<in>{..<length r} - {i}. (r ! j :: real))"
proof -
  have "sum_list r = sum_list (take i r @ [r ! i] @ drop (Suc i) r)"
    using assms by (simp add: Cons_nth_drop_Suc)
  then have "sum_list (take i r @ drop (Suc i) r) = sum_list r - r ! i"
    by simp
  also have "sum_list r = (\<Sum>j\<in>{..<length r}. r ! j)"
    by (simp add: sum_list_sum_nth atLeast0LessThan)
  also have "(\<Sum>j\<in>{..<length r}. r ! j) - r ! i = (\<Sum>j\<in>{..<length r} - {i}. r ! j)"
    using assms by (simp add: sum_diff1)
  finally show ?thesis .
qed

lemma remove_diagonal_sim:
  assumes "0 < B" "length out = 2 * B"
  shows "remove_diagonal B (sim_matrix temp out) =
           Inr (map (\<lambda>i. take i (sim_matrix temp out ! i) @ drop (Suc i) (sim_matrix temp out ! i))
                  [0..<2 * B])"
proof -
  have l1: "length (sim_matrix temp out) = 2 * B"
    by (simp add: length_sim_matrix assms(2))
  have l2: "\<forall>r\<in>set (sim_matrix temp out). length r = 2 * B"
    using assms(2) by (auto simp: in_set_conv_nth length_sim_matrix length_sim_matrix_row)
  show ?thesis
    by (rule remove_diagonal_rows[OF l1 l2 assms(1)])
qed

text \<open>
  Claim C7. For a batch of size \<open>B \<ge> 1\<close>, the masked similarity matrix of a modality has
  \<open>2B\<close> rows of \<open>2B - 1\<close> entries; row \<open>i\<close> is row \<open>i\<close> of the similarity matrix without its
  entry \<open>i\<close>, so that the sum of the row (the softmax denominator) is the sum of the
  \<open>exp(dot(out[i], out[j]) / temperature)\<close> over the \<open>j\<close> other than \<open>i\<close>: the diagonal entry
  contributes to no denominator.
\<close>

theorem diagonal_excluded:
  assumes "0 < B" "length joint_z = B" "length z = B" "cat0 joint_z z = Inr out"
  shows "\<exists>M. remove_diagonal (length joint_z) (sim_matrix temp out) = Inr M \<and>
           length M = 2 * B \<and>
           (\<forall>i<2 * B. length (M ! i) = 2 * B - 1 \<and>
              M ! i = take i (sim_matrix temp out ! i) @ drop (Suc i) (sim_matrix temp out ! i) \<and>
              sum_list (M ! i) =
                (\<Sum>j\<in>{..<2 * B} - {i}. exp (dot (out ! i) (out ! j) / temp)))"
proof -
  let ?S = "sim_matrix temp out"
  have out: "out = joint_z @ z"
    using assms(4) by (simp add: cat0_def split: if_splits)
  then have len: "length out = 2 * B"
    using assms by simp
  have l1: "length ?S = 2 * B" by (simp add: length_sim_matrix len)
  have l2: "\<forall>r\<in>set ?S. length r = 2 * B"
    using len by (auto simp: in_set_conv_nth length_sim_matrix length_sim_matrix_row)
  have rd: "remove_diagonal (length joint_z) ?S =
              Inr (map (\<lambda>i. take i (?S ! i) @ drop (Suc i) (?S ! i)) [0..<2 * B])"
    using remove_diagonal_rows[OF l1 l2 assms(1)] assms(2) by simp
  have "sum_list (take i (?S ! i) @ drop (Suc i) (?S ! i)) =
          (\<Sum>j\<in>{..<2 * B} - {i}. exp (dot (out ! i) (out ! j) / temp))" if "i < 2 * B" for i
  proof -
    have "sum_list (take i (?S ! i) @ drop (Suc i) (?S ! i)) = (\<Sum>j\<in>{..<2 * B} - {i}. ?S ! i ! j)"
      using sum_list_without[of i "?S ! i"] that len by (simp add: length_sim_matrix_row)
    also have "\<dots> = (\<Sum>j\<in>{..<2 * B} - {i}. exp (dot (out ! i) (out ! j) / temp))"
      using that len by (intro sum.cong) (auto simp: sim_matrix_nth)
    finally show ?thesis .
  qed
  with rd l1 l2 len show ?thesis
    by (auto simp: length_sim_matrix_row)
qed

theorem diagonal_excluded_witness:
  "0 < (1::nat) \<and> length [[0::real]] = 1 \<and> cat0 [[0]] [[0]] = Inr [[0], [0]] \<and>
   (\<exists>M. remove_diagonal (length [[0::real]]) (sim_matrix 1 [[0], [0]]) = Inr M \<and>
        length M = 2 * 1 \<and>
        (\<forall>i<2 * 1. length (M ! i) = 2 * 1 - 1 \<and>
           M ! i = take i (sim_matrix 1 [[0], [0]] ! i) @ drop (Suc i) (sim_matrix 1 [[0], [0]] ! i) \<and>
           sum_list (M ! i) =
             (\<Sum>j\<in>{..<2 * 1} - {i}. exp (dot ([[0], [0]] ! i) ([[0], [0]] ! j) / 1))))"
proof -
  have c: "cat0 [[0]] [[0]] = Inr [[0], [0]]" by (simp add: cat0_def)
  have "0 < (1::nat)" "length [[0::real]] = 1" by simp_all
  from diagonal_excluded[OF this(1) this(2) this(2) c, of 1] c show ?thesis
    by simp
qed

subsection \<open>The loss on well-shaped embeddings\<close>

lemma has_shapeD:
  "has_shape B D t \<Longrightarrow> length t = B \<and> (\<forall>r\<in>set t. length r = D)"
  by (simp add: has_shape_def list_all_iff)

lemma has_shape_same:
  assumes "has_shape B D a" "has_shape B D b"
  shows "same_shape a b"
proof -
  have "map length a = replicate B D" "map length b = replicate B D"
    using has_shapeD[OF assms(1)] has_shapeD[OF assms(2)]
    by (auto intro!: nth_equalityI)
  then show ?thesis by (simp add: same_shape_def)
qed

lemma cat0_shapes:
  assumes "has_shape B D a" "has_shape B D b"
  shows "cat0 a b = Inr (a @ b)"
proof -
  have "length (hd a) = length (hd b)" if "a \<noteq> []" "b \<noteq> []"
    using that has_shapeD[OF assms(1)] has_shapeD[OF assms(2)] by simp
  then show ?thesis by (auto simp: cat0_def)
qed

lemma pos_sim_shapes:
  assumes "has_shape B D joint_z" "has_shape B D z"
  shows "\<exists>p. pos_sim temp joint_z z = Inr p \<and> length p = 2 * B"
  using has_shape_same[OF assms] has_shapeD[OF assms(1)] has_shapeD[OF assms(2)]
  by (simp add: pos_sim_def mul_def bindE_def sum_last_def Let_def)

lemma loss_joint_mod_shapes:
  assumes "0 < B" "has_shape B D joint_z" "has_shape B D z"
  shows "\<exists>l. loss_joint_mod temp joint_z z = Inr l \<and> length l = 2 * B"
proof -
  have lj: "length joint_z = B" and lz: "length z = B"
    using has_shapeD[OF assms(2)] has_shapeD[OF assms(3)] by simp_all
  have c: "cat0 joint_z z = Inr (joint_z @ z)"
    by (rule cat0_shapes[OF assms(2,3)])
  have "length (joint_z @ z) = 2 * B"
    using lj lz by simp
  from remove_diagonal_sim[OF assms(1) this, of temp]
  obtain M where M: "remove_diagonal (length joint_z) (sim_matrix temp (joint_z @ z)) = Inr M"
    "length M = 2 * B"
    using lj by auto
  obtain p where p: "pos_sim temp joint_z z = Inr p" "length p = 2 * B"
    using pos_sim_shapes[OF assms(2,3)] by blast
  show ?thesis
    by (simp add: loss_joint_mod_def c M p bindE_def div_v_def sum_last_def)
qed


lemma sum_list_map2_add:
  "length v = length l \<Longrightarrow> sum_list (map2 (+) v l) = sum_list v + sum_list (l :: real list)"
  by (induction v l rule: list_induct2) auto

lemma infonce_loop_Vec:
  assumes "length v = n"
    "\<forall>m\<in>set ms. \<exists>z. getitem modalities_z m = Inr z \<and>
        loss_joint_mod temp joint_z z = Inr (L m) \<and> length (L m) = n"
  shows "\<exists>w. infonce_loop temp modalities_z joint_z (Vec v) ms = Inr (Vec w) \<and> length w = n \<and>
           (\<forall>i<n. w ! i = v ! i + (\<Sum>m\<leftarrow>ms. L m ! i))"
  using assms
proof (induction ms arbitrary: v)
  case Nil
  then show ?case by simp
next
  case (Cons m ms)
  from Cons.prems(2) obtain z where z: "getitem modalities_z m = Inr z"
    "loss_joint_mod temp joint_z z = Inr (L m)" "length (L m) = n"
    by auto
  have len: "length (map2 (+) v (L m)) = n"
    using Cons.prems(1) z(3) by simp
  from Cons.IH[OF len] Cons.prems(2)
  obtain w where w: "infonce_loop temp modalities_z joint_z (Vec (map2 (+) v (L m))) ms = Inr (Vec w)"
    "length w = n" "\<forall>i<n. w ! i = map2 (+) v (L m) ! i + (\<Sum>m\<leftarrow>ms. L m ! i)"
    by auto
  have "infonce_loop temp modalities_z joint_z (Vec v) (m # ms) = Inr (Vec w)"
    using z w(1) Cons.prems(1) by (simp add: bindE_def)
  moreover have "\<forall>i<n. w ! i = v ! i + (\<Sum>m\<leftarrow>m # ms. L m ! i)"
    using w(3) Cons.prems(1) z(3) by simp
  ultimately show ?case using w(2) by blast
qed

lemma infonce_loop_PyInt:
  assumes "ms \<noteq> []"
    "\<forall>m\<in>set ms. \<exists>z. getitem modalities_z m = Inr z \<and>
        loss_joint_mod temp joint_z z = Inr (L m) \<and> length (L m) = n"
  shows "infonce_loop temp modalities_z joint_z (PyInt 0) ms =
           Inr (Vec (map (\<lambda>i. \<Sum>m\<leftarrow>ms. L m ! i) [0..<n]))"
proof -
  from assms(1) obtain m ms' where ms: "ms = m # ms'" by (cases ms) auto
  from assms(2) ms obtain z where z: "getitem modalities_z m = Inr z"
    "loss_joint_mod temp joint_z z = Inr (L m)" "length (L m) = n"
    by auto
  from infonce_loop_Vec[OF z(3), of ms' modalities_z temp joint_z L] assms(2) ms
  obtain w where w: "infonce_loop temp modalities_z joint_z (Vec (L m)) ms' = Inr (Vec w)"
    "length w = n" "\<forall>i<n. w ! i = L m ! i + (\<Sum>m\<leftarrow>ms'. L m ! i)"
    by auto
  have "w = map (\<lambda>i. \<Sum>m\<leftarrow>ms. L m ! i) [0..<n]"
    using w(2,3) ms by (intro nth_equalityI) auto
  moreover have "map ((+) 0) (L m) = L m"
    by (induction "L m") auto
  then have "infonce_loop temp modalities_z joint_z (PyInt 0) ms = Inr (Vec w)"
    using z w(1) ms by (simp add: bindE_def)
  ultimately show ?thesis by simp
qed


lemma sum_list_columns:
  "\<forall>l\<in>set ls. length l = n \<Longrightarrow>
     sum_list (map (\<lambda>i. \<Sum>l\<leftarrow>ls. l ! i) [0..<n]) = sum_list (concat (ls :: real list list))"
proof (induction ls)
  case Nil
  then show ?case by simp
next
  case (Cons a ls)
  have "map (\<lambda>i. a ! i) [0..<n] = a"
    using Cons.prems by (intro nth_equalityI) auto
  then have "sum_list (map (\<lambda>i. a ! i) [0..<n]) = sum_list a"
    by simp
  with Cons show ?case
    by (simp add: sum_list_addf)
qed

lemma getitem_distinct:
  "distinct (map fst d) \<Longrightarrow> kv \<in> set d \<Longrightarrow> getitem d (fst kv) = Inr (snd kv)"
  by (cases kv) (simp add: getitem_def)

lemma infonce_loop_shapes:
  assumes "0 < B" "has_shape B D joint_z" "modalities_z \<noteq> []"
    "distinct (map fst modalities_z)" "\<forall>kz\<in>set modalities_z. has_shape B D (snd kz)"
  shows "\<exists>ls. map (\<lambda>kz. loss_joint_mod temp joint_z (snd kz)) modalities_z = map Inr ls \<and>
           (\<forall>l\<in>set ls. length l = 2 * B) \<and>
           infonce_loop temp modalities_z joint_z (PyInt 0) (map fst modalities_z) =
             Inr (Vec (map (\<lambda>i. \<Sum>l\<leftarrow>ls. l ! i) [0..<2 * B]))"
proof -
  define L where "L m = projr (bindE (getitem modalities_z m) (loss_joint_mod temp joint_z))" for m
  have kz: "getitem modalities_z (fst kz) = Inr (snd kz) \<and>
            loss_joint_mod temp joint_z (snd kz) = Inr (L (fst kz)) \<and> length (L (fst kz)) = 2 * B"
    if "kz \<in> set modalities_z" for kz
  proof -
    have g: "getitem modalities_z (fst kz) = Inr (snd kz)"
      by (rule getitem_distinct[OF assms(4) that])
    from loss_joint_mod_shapes[OF assms(1,2), of "snd kz" temp] assms(5) that
    obtain l where l: "loss_joint_mod temp joint_z (snd kz) = Inr l" "length l = 2 * B"
      by blast
    have "L (fst kz) = l"
      by (simp add: L_def g l bindE_def)
    with g l show ?thesis by simp
  qed
  let ?ls = "map (\<lambda>kz. L (fst kz)) modalities_z"
  have 1: "map (\<lambda>kz. loss_joint_mod temp joint_z (snd kz)) modalities_z = map Inr ?ls"
    using kz by simp
  have 2: "\<forall>l\<in>set ?ls. length l = 2 * B"
    using kz by auto
  have "\<forall>m\<in>set (map fst modalities_z). \<exists>z. getitem modalities_z m = Inr z \<and>
          loss_joint_mod temp joint_z z = Inr (L m) \<and> length (L m) = 2 * B"
    using kz by auto
  from infonce_loop_PyInt[OF _ this] assms(3)
  have "infonce_loop temp modalities_z joint_z (PyInt 0) (map fst modalities_z) =
          Inr (Vec (map (\<lambda>i. \<Sum>m\<leftarrow>map fst modalities_z. L m ! i) [0..<2 * B]))"
    by simp
  also have "(\<lambda>i. \<Sum>m\<leftarrow>map fst modalities_z. L m ! i) = (\<lambda>i. \<Sum>l\<leftarrow>?ls. l ! i)"
    by (simp add: comp_def)
  finally show ?thesis using 1 2 by blast
qed

text \<open>
  Claim C3, as the code has it. For a batch of size \<open>B \<ge> 1\<close> and at least one modality, all
  embeddings of shape \<open>(B, D)\<close>: each modality yields a vector of \<open>2B\<close> per-row losses, the
  loop accumulates these vectors by elementwise sum, and \<open>infonce\<close> returns the mean of the
  accumulated vector, which has \<open>2B\<close> elements: the grand sum of all per-row losses divided
  by \<open>2B\<close>.
\<close>

theorem infonce_mean_of_accumulated:
  assumes "0 < B" "has_shape B D joint_z" "modalities_z \<noteq> []"
    "distinct (map fst modalities_z)" "\<forall>kz\<in>set modalities_z. has_shape B D (snd kz)"
  shows "\<exists>ls. map (\<lambda>kz. loss_joint_mod (temperature self) joint_z (snd kz)) modalities_z = map Inr ls \<and>
           (\<forall>l\<in>set ls. length l = 2 * B) \<and>
           infonce_loop (temperature self) modalities_z joint_z (PyInt 0) (map fst modalities_z) =
             Inr (Vec (map (\<lambda>i. \<Sum>l\<leftarrow>ls. l ! i) [0..<2 * B])) \<and>
           infonce self modalities_z joint_z = Inr (sum_list (concat ls) / real (2 * B))"
proof -
  from infonce_loop_shapes[OF assms, of "temperature self"]
  obtain ls where ls:
    "map (\<lambda>kz. loss_joint_mod (temperature self) joint_z (snd kz)) modalities_z = map Inr ls"
    "\<forall>l\<in>set ls. length l = 2 * B"
    "infonce_loop (temperature self) modalities_z joint_z (PyInt 0) (map fst modalities_z) =
       Inr (Vec (map (\<lambda>i. \<Sum>l\<leftarrow>ls. l ! i) [0..<2 * B]))"
    by blast
  have "infonce self modalities_z joint_z = Inr (sum_list (concat ls) / real (2 * B))"
    using sum_list_columns[OF ls(2)] by (simp add: infonce_def ls(3) bindE_def)
  with ls show ?thesis by blast
qed

text \<open>
  Claim C8. For every batch size \<open>B \<ge> 1\<close> and at least one modality, with embeddings of
  shape \<open>(B, D)\<close>, \<open>infonce\<close> raises nothing and returns one scalar.
\<close>

theorem infonce_returns_scalar:
  assumes "0 < B" "has_shape B D joint_z" "modalities_z \<noteq> []"
    "distinct (map fst modalities_z)" "\<forall>kz\<in>set modalities_z. has_shape B D (snd kz)"
  shows "\<exists>loss. infonce self modalities_z joint_z = Inr loss"
proof -
  from infonce_loop_shapes[OF assms, of "temperature self"]
  obtain w where "infonce_loop (temperature self) modalities_z joint_z (PyInt 0)
                    (map fst modalities_z) = Inr (Vec w)"
    by blast
  then show ?thesis
    by (simp add: infonce_def bindE_def)
qed

subsection \<open>Construction\<close>

lemma setitem_fresh: "k \<notin> fst ` set d \<Longrightarrow> setitem d k v = d @ [(k, v)]"
  by (induction d) auto

lemma contains_keys: "contains d k = (k \<in> fst ` set d)"
  by (simp add: contains_def map_of_eq_None_iff)

lemma ModuleDict_setitem_fresh:
  "k \<notin> fst ` set d \<Longrightarrow>
     ModuleDict_setitem attrs d k v =
       (if attrs k \<or> CHR ''.'' \<in> set k \<or> k = [] then Inl (KeyError k) else Inr (d @ [(k, v)]))"
  by (simp add: ModuleDict_setitem_def hasattr_def contains_keys setitem_fresh)

lemma set_networks_loop_distinct:
  assumes "distinct (map fst kvs)" "fst ` set (networks self) \<inter> fst ` set kvs = {}"
    "\<forall>kv\<in>set kvs. getitem nets (fst kv) = Inr (snd kv)"
  shows "(\<forall>s. (set_networks_loop attrs self nets (map fst kvs) = Inr s) =
               ((\<forall>kv\<in>set kvs. is_BaseEncoder (snd kv) \<and> enc_latent_dim (snd kv) = common_dim self \<and>
                    \<not> (attrs (fst kv) \<or> CHR ''.'' \<in> set (fst kv) \<or> fst kv = [])) \<and>
                s = self\<lparr>networks := networks self @ kvs\<rparr>)) \<and>
         (\<forall>e. set_networks_loop attrs self nets (map fst kvs) = Inl e \<longrightarrow>
               (e = AttributeError \<and>
                  (\<exists>kv\<in>set kvs. \<not> is_BaseEncoder (snd kv) \<or> enc_latent_dim (snd kv) \<noteq> common_dim self)) \<or>
               (\<exists>kv\<in>set kvs. (attrs (fst kv) \<or> CHR ''.'' \<in> set (fst kv) \<or> fst kv = []) \<and>
                    e = KeyError (fst kv)))"
  using assms
proof (induction kvs arbitrary: self)
  case Nil
  then show ?case by auto
next
  case (Cons kv kvs)
  obtain k v where kv: "kv = (k, v)" by (cases kv)
  let ?self = "self\<lparr>networks := networks self @ [(k, v)]\<rparr>"
  have fresh: "k \<notin> fst ` set (networks self)"
    using Cons.prems(2) kv by auto
  have g: "getitem nets k = Inr v"
    using Cons.prems(3) kv by simp
  have "fst ` set (networks ?self) \<inter> fst ` set kvs = {}"
    using Cons.prems(1,2) kv by (auto simp: image_Un)
  from Cons.IH[OF _ this] Cons.prems(1,3)
  have IH: "(\<forall>s. (set_networks_loop attrs ?self nets (map fst kvs) = Inr s) =
               ((\<forall>kv\<in>set kvs. is_BaseEncoder (snd kv) \<and> enc_latent_dim (snd kv) = common_dim self \<and>
                    \<not> (attrs (fst kv) \<or> CHR ''.'' \<in> set (fst kv) \<or> fst kv = [])) \<and>
                s = self\<lparr>networks := networks self @ (k, v) # kvs\<rparr>)) \<and>
         (\<forall>e. set_networks_loop attrs ?self nets (map fst kvs) = Inl e \<longrightarrow>
               (e = AttributeError \<and>
                  (\<exists>kv\<in>set kvs. \<not> is_BaseEncoder (snd kv) \<or> enc_latent_dim (snd kv) \<noteq> common_dim self)) \<or>
               (\<exists>kv\<in>set kvs. (attrs (fst kv) \<or> CHR ''.'' \<in> set (fst kv) \<or> fst kv = []) \<and>
                    e = KeyError (fst kv)))"
    by simp
  show ?case
  proof (cases "is_BaseEncoder v \<and> enc_latent_dim v = common_dim self \<and>
                \<not> (attrs k \<or> CHR ''.'' \<in> set k \<or> k = [])")
    case True
    then have step: "set_networks_loop attrs self nets (map fst (kv # kvs)) =
                 set_networks_loop attrs ?self nets (map fst kvs)"
      by (simp add: kv g bindE_def ModuleDict_setitem_fresh[OF fresh])
    show ?thesis
      unfolding step using IH True by (simp add: kv)
  next
    case False
    then show ?thesis
      by (auto simp: kv g bindE_def ModuleDict_setitem_fresh[OF fresh])
  qed
qed


lemma set_networks_distinct:
  assumes "distinct (map fst nets)"
  shows "(\<forall>s. (set_networks attrs self nets = Inr s) =
               (int (length nets) = n_modalities self \<and>
                (\<forall>kv\<in>set nets. is_BaseEncoder (snd kv) \<and> enc_latent_dim (snd kv) = common_dim self \<and>
                    \<not> (attrs (fst kv) \<or> CHR ''.'' \<in> set (fst kv) \<or> fst kv = [])) \<and>
                s = self\<lparr>networks := nets\<rparr>)) \<and>
         (\<forall>e. set_networks attrs self nets = Inl e \<longrightarrow>
               (e = AssertionError \<and> int (length nets) \<noteq> n_modalities self) \<or>
               int (length nets) = n_modalities self \<and>
               ((e = AttributeError \<and>
                  (\<exists>kv\<in>set nets. \<not> is_BaseEncoder (snd kv) \<or> enc_latent_dim (snd kv) \<noteq> common_dim self)) \<or>
                (\<exists>kv\<in>set nets. (attrs (fst kv) \<or> CHR ''.'' \<in> set (fst kv) \<or> fst kv = []) \<and>
                    e = KeyError (fst kv))))"
proof -
  have "\<forall>kv\<in>set nets. getitem nets (fst kv) = Inr (snd kv)"
    using getitem_distinct[OF assms] by blast
  from set_networks_loop_distinct[OF assms _ this, of "self\<lparr>networks := []\<rparr>" attrs]
  show ?thesis
    by (simp add: set_networks_def)
qed

lemma GMC_init_success:
  assumes "distinct (map fst processors)"
  shows "(GMC_init attrs cfg processors joint shared = Inr s) =
           (int (length processors) = cfg_n_modalities cfg \<and>
            (\<forall>kv\<in>set processors.
                is_BaseEncoder (snd kv) \<and> enc_latent_dim (snd kv) = cfg_common_dim cfg \<and>
                \<not> (attrs (fst kv) \<or> CHR ''.'' \<in> set (fst kv) \<or> fst kv = [])) \<and>
            is_BaseJointEncoder joint \<and> enc_latent_dim joint \<noteq> cfg_common_dim cfg \<and>
            is_BaseEncoder shared \<and> enc_latent_dim shared = embedding_dim cfg \<and>
            s = (init_self cfg)\<lparr>networks := processors, joint_encoder := Some joint,
                                  shared_encoder := Some shared\<rparr>)"
proof (cases "set_networks attrs (init_self cfg) processors")
  case (Inl e)
  then have "\<forall>s. set_networks attrs (init_self cfg) processors \<noteq> Inr s" by simp
  with set_networks_distinct[OF assms, of attrs "init_self cfg"] Inl
  show ?thesis
    by (auto simp: GMC_init_def bindE_def init_self_def)
next
  case (Inr s')
  with set_networks_distinct[OF assms, of attrs "init_self cfg"]
  have s': "int (length processors) = cfg_n_modalities cfg"
    "\<forall>kv\<in>set processors.
        is_BaseEncoder (snd kv) \<and> enc_latent_dim (snd kv) = cfg_common_dim cfg \<and>
        \<not> (attrs (fst kv) \<or> CHR ''.'' \<in> set (fst kv) \<or> fst kv = [])"
    "s' = (init_self cfg)\<lparr>networks := processors\<rparr>"
    by (auto simp: init_self_def)
  have "GMC_init attrs cfg processors joint shared =
          bindE (set_joint_encoder s' joint) (\<lambda>self. set_shared_encoder self shared)"
    by (simp add: GMC_init_def Inr bindE_def)
  then show ?thesis
    using s'(1,2)
    by (auto simp: bindE_def s'(3) set_joint_encoder_def set_shared_encoder_def init_self_def)
qed

lemma GMC_init_failure:
  assumes "distinct (map fst processors)" "GMC_init attrs cfg processors joint shared = Inl e"
  shows "(e = AssertionError \<and> int (length processors) \<noteq> cfg_n_modalities cfg) \<or>
         int (length processors) = cfg_n_modalities cfg \<and>
         (e = AttributeError \<or>
          (\<exists>kv\<in>set processors. (attrs (fst kv) \<or> CHR ''.'' \<in> set (fst kv) \<or> fst kv = []) \<and>
               e = KeyError (fst kv)))"
proof (cases "set_networks attrs (init_self cfg) processors")
  case (Inl e')
  then have "e' = e"
    using assms(2) by (simp add: GMC_init_def bindE_def)
  with set_networks_distinct[OF assms(1), of attrs "init_self cfg"] Inl
  show ?thesis
    by (auto simp: init_self_def)
next
  case (Inr s')
  with set_networks_distinct[OF assms(1), of attrs "init_self cfg"]
  have n: "int (length processors) = cfg_n_modalities cfg"
    by (auto simp: init_self_def)
  have "GMC_init attrs cfg processors joint shared =
          bindE (set_joint_encoder s' joint) (\<lambda>self. set_shared_encoder self shared)"
    by (simp add: GMC_init_def Inr bindE_def)
  then have "e = AttributeError"
    using assms(2)
    by (auto simp: bindE_def set_joint_encoder_def set_shared_encoder_def split: if_splits)
  with n show ?thesis by simp
qed

lemma ex_processors_distinct: "distinct (map fst ex_processors)"
  by (simp add: ex_processors_def)

lemma ex_model_constructed:
  "GMC_init ex_attrs ex_config ex_processors (first_joint_encoder 2) (identity_encoder 1) = Inr ex_model"
  unfolding GMC_init_success[OF ex_processors_distinct]
  by (simp add: ex_processors_def ex_config_def identity_encoder_def first_joint_encoder_def
      ex_model_def ex_attrs_def)

lemma set_joint_encoder_outcome:
  "set_joint_encoder self joint =
     (if \<not> is_BaseJointEncoder joint \<or> enc_latent_dim joint = common_dim self
      then Inl AttributeError
      else Inr (self\<lparr>joint_encoder := Some joint\<rparr>))"
  by (simp add: set_joint_encoder_def)


text \<open>
  Claim C1, evaluated on the code. The claim asks that construction fail when the joint
  encoder's \<open>latent_dim\<close> differs from \<open>common_dim\<close> and pass that check when they are equal.
  With \<open>common_dim = 1\<close>, \<open>set_joint_encoder\<close> raises for the joint encoder of dimension 1 and
  accepts the one of dimension 2: the test on line 71 is negated twice.
\<close>

theorem joint_encoder_check_inverted:
  "cfg_common_dim ex_config = 1 \<and>
   GMC_init ex_attrs ex_config ex_processors (first_joint_encoder 1) (identity_encoder 1) =
     Inl AttributeError \<and>
   GMC_init ex_attrs ex_config ex_processors (first_joint_encoder 2) (identity_encoder 1) =
     Inr ex_model"
proof -
  have n: "\<And>s. GMC_init ex_attrs ex_config ex_processors (first_joint_encoder 1) (identity_encoder 1)
             \<noteq> Inr s"
    unfolding GMC_init_success[OF ex_processors_distinct]
    by (simp add: first_joint_encoder_def ex_config_def)
  obtain e where e: "GMC_init ex_attrs ex_config ex_processors (first_joint_encoder 1)
                       (identity_encoder 1) = Inl e"
    using n by (cases "GMC_init ex_attrs ex_config ex_processors (first_joint_encoder 1)
                         (identity_encoder 1)") auto
  have "e = AttributeError"
    using GMC_init_failure[OF ex_processors_distinct e]
    by (auto simp: ex_processors_def ex_config_def ex_attrs_def)
  with e ex_model_constructed show ?thesis
    by (simp add: ex_config_def)
qed

text \<open>
  Claim C4, as the code has it. For a dictionary of modality encoders, construction raises
  \<open>AssertionError\<close> exactly when the number of encoders differs from \<open>n_modalities\<close>. It
  fails exactly when that number differs, or some modality encoder is not a \<open>BaseEncoder\<close>,
  declares a dimension other than \<open>common_dim\<close> or has a name that the \<open>ModuleDict\<close> rejects
  (an attribute of the dictionary object, a name with a dot, the empty name), or
  \<open>set_joint_encoder\<close> rejects the joint encoder, or the shared head is not a \<open>BaseEncoder\<close>
  or declares a dimension other than \<open>latent_dim\<close>. Every failure is an \<open>AssertionError\<close>, an
  \<open>AttributeError\<close>, or the \<open>KeyError\<close> of a rejected name. Otherwise construction succeeds
  and the model holds the values of the configuration and exactly the supplied bindings.
\<close>

theorem construction_outcome:
  assumes "distinct (map fst processors)"
  shows "((GMC_init attrs cfg processors joint shared = Inl AssertionError) =
            (int (length processors) \<noteq> cfg_n_modalities cfg)) \<and>
         ((\<exists>e. GMC_init attrs cfg processors joint shared = Inl e) =
            (int (length processors) \<noteq> cfg_n_modalities cfg \<or>
             (\<exists>kv\<in>set processors.
                 \<not> is_BaseEncoder (snd kv) \<or> enc_latent_dim (snd kv) \<noteq> cfg_common_dim cfg \<or>
                 attrs (fst kv) \<or> CHR ''.'' \<in> set (fst kv) \<or> fst kv = []) \<or>
             (\<exists>e. set_joint_encoder (init_self cfg) joint = Inl e) \<or>
             \<not> is_BaseEncoder shared \<or> enc_latent_dim shared \<noteq> embedding_dim cfg)) \<and>
         (\<forall>e. GMC_init attrs cfg processors joint shared = Inl e \<longrightarrow>
              e = AssertionError \<or> e = AttributeError \<or>
              (\<exists>kv\<in>set processors.
                  (attrs (fst kv) \<or> CHR ''.'' \<in> set (fst kv) \<or> fst kv = []) \<and> e = KeyError (fst kv))) \<and>
         (\<forall>self. GMC_init attrs cfg processors joint shared = Inr self \<longrightarrow>
              self = (init_self cfg)\<lparr>networks := processors, joint_encoder := Some joint,
                                      shared_encoder := Some shared\<rparr>)"
proof -
  let ?r = "GMC_init attrs cfg processors joint shared"
  have j: "(\<exists>e. set_joint_encoder (init_self cfg) joint = Inl e) =
             (\<not> is_BaseJointEncoder joint \<or> \<not> (enc_latent_dim joint \<noteq> cfg_common_dim cfg))"
    by (simp add: set_joint_encoder_def init_self_def)
  have fail: "(\<exists>e. ?r = Inl e) = (\<forall>s. ?r \<noteq> Inr s)"
    by (cases ?r) auto
  have 1: "(?r = Inl AssertionError) = (int (length processors) \<noteq> cfg_n_modalities cfg)"
  proof
    assume "?r = Inl AssertionError"
    from GMC_init_failure[OF assms this] show "int (length processors) \<noteq> cfg_n_modalities cfg"
      by auto
  next
    assume n: "int (length processors) \<noteq> cfg_n_modalities cfg"
    then have "\<forall>s. ?r \<noteq> Inr s"
      unfolding GMC_init_success[OF assms] by simp
    then obtain e where e: "?r = Inl e" using fail by blast
    from GMC_init_failure[OF assms e] n show "?r = Inl AssertionError"
      using e by auto
  qed
  have 2: "(\<exists>e. ?r = Inl e) =
            (int (length processors) \<noteq> cfg_n_modalities cfg \<or>
             (\<exists>kv\<in>set processors.
                 \<not> is_BaseEncoder (snd kv) \<or> enc_latent_dim (snd kv) \<noteq> cfg_common_dim cfg \<or>
                 attrs (fst kv) \<or> CHR ''.'' \<in> set (fst kv) \<or> fst kv = []) \<or>
             (\<exists>e. set_joint_encoder (init_self cfg) joint = Inl e) \<or>
             \<not> is_BaseEncoder shared \<or> enc_latent_dim shared \<noteq> embedding_dim cfg)"
    unfolding fail j GMC_init_success[OF assms] by auto
  have 3: "\<forall>e. ?r = Inl e \<longrightarrow>
              e = AssertionError \<or> e = AttributeError \<or>
              (\<exists>kv\<in>set processors.
                  (attrs (fst kv) \<or> CHR ''.'' \<in> set (fst kv) \<or> fst kv = []) \<and> e = KeyError (fst kv))"
    using GMC_init_failure[OF assms] by blast
  have 4: "\<forall>self. ?r = Inr self \<longrightarrow>
              self = (init_self cfg)\<lparr>networks := processors, joint_encoder := Some joint,
                                      shared_encoder := Some shared\<rparr>"
    unfolding GMC_init_success[OF assms] by simp
  from 1 2 3 4 show ?thesis by blast
qed

theorem construction_outcome_witness:
  "distinct (map fst ex_processors) \<and>
   GMC_init ex_attrs ex_config ex_processors (first_joint_encoder 2) (identity_encoder 1) =
     Inr ((init_self ex_config)\<lparr>networks := ex_processors,
            joint_encoder := Some (first_joint_encoder 2),
            shared_encoder := Some (identity_encoder 1)\<rparr>)"
proof -
  have "\<exists>self. GMC_init ex_attrs ex_config ex_processors (first_joint_encoder 2)
                  (identity_encoder 1) = Inr self"
    using ex_model_constructed by blast
  with construction_outcome[OF ex_processors_distinct, of ex_attrs ex_config
         "first_joint_encoder 2" "identity_encoder 1"] ex_processors_distinct
  show ?thesis by auto
qed

text \<open>
  The three conditions on the count, the modality encoders and the shared head do not
  decide the outcome alone: here all three hold, and construction fails because the joint
  encoder is not a \<open>BaseJointEncoder\<close>.
\<close>

theorem construction_iff_counterexample:
  "GMC_init ex_attrs ex_config ex_processors (identity_encoder 1) (identity_encoder 1) =
     Inl AttributeError \<and>
   int (length ex_processors) = cfg_n_modalities ex_config \<and>
   enc_latent_dim (snd (ex_processors ! 0)) = cfg_common_dim ex_config \<and>
   enc_latent_dim (snd (ex_processors ! 1)) = cfg_common_dim ex_config \<and>
   enc_latent_dim (identity_encoder 1) = embedding_dim ex_config"
proof -
  have n: "\<And>s. GMC_init ex_attrs ex_config ex_processors (identity_encoder 1) (identity_encoder 1)
             \<noteq> Inr s"
    unfolding GMC_init_success[OF ex_processors_distinct]
    by (simp add: identity_encoder_def)
  obtain e where e: "GMC_init ex_attrs ex_config ex_processors (identity_encoder 1)
                       (identity_encoder 1) = Inl e"
    using n by (cases "GMC_init ex_attrs ex_config ex_processors (identity_encoder 1)
                         (identity_encoder 1)") auto
  have "e = AttributeError"
    using GMC_init_failure[OF ex_processors_distinct e]
    by (auto simp: ex_processors_def ex_config_def ex_attrs_def)
  with e show ?thesis
    by (simp add: ex_config_def ex_processors_def identity_encoder_def)
qed

text \<open>A modality named \<open>train\<close> is rejected by the \<open>ModuleDict\<close>.\<close>

lemma construction_rejected_name:
  "GMC_init ex_attrs (ex_config\<lparr>cfg_n_modalities := 1\<rparr>) [(''train'', identity_encoder 1)]
     (first_joint_encoder 2) (identity_encoder 1) = Inl (KeyError ''train'')"
  by (simp add: GMC_init_def set_networks_def init_self_def ex_config_def bindE_def getitem_def
      identity_encoder_def ModuleDict_setitem_def hasattr_def contains_def ex_attrs_def)

subsection \<open>Encoding\<close>

lemma apply_enc_not_AttributeError: "apply_enc enc x \<noteq> Inl AttributeError"
  by (simp add: apply_enc_def split: sum.splits)

lemma encode_all:
  assumes "shared_encoder self = Some shared" "joint_encoder self = Some joint"
  shows "encode self inputs ''all'' =
           bindE (apply_enc joint (Dict (data inputs))) (\<lambda>out.
           bindE (apply_enc shared (Tensor (embedding out))) (\<lambda>z. Inr (ModelOutput z)))"
  using assms by (simp add: encode_def getattr_def bindE_def)

lemma encode_modality:
  assumes "shared_encoder self = Some shared" "map_of (networks self) m = Some net" "m \<noteq> ''all''"
  shows "encode self inputs m =
           bindE (apply_enc net (Dict (data inputs))) (\<lambda>out.
           bindE (apply_enc shared (Tensor (embedding out))) (\<lambda>z. Inr (ModelOutput z)))"
  using assms by (simp add: encode_def getattr_def bindE_def contains_def getitem_def)

lemma encode_unknown:
  assumes "cond_mod \<noteq> ''all''" "cond_mod \<notin> fst ` set (networks self)"
  shows "encode self inputs cond_mod = Inl AttributeError"
  using assms by (simp add: encode_def contains_keys)

lemma bindE_chain_not_AttributeError:
  "bindE (apply_enc e1 x)
     (\<lambda>out. bindE (apply_enc e2 (Tensor (embedding out))) (\<lambda>z. Inr (ModelOutput z)))
     \<noteq> Inl AttributeError"
  by (auto simp: bindE_def apply_enc_def split: sum.splits)

lemma ex_model_fields:
  "shared_encoder ex_model = Some (identity_encoder 1)"
  "joint_encoder ex_model = Some (first_joint_encoder 2)"
  "networks ex_model = ex_processors"
  "temperature ex_model = 1"
  by (simp_all add: ex_model_def init_self_def ex_config_def)

text \<open>
  Claim C6. On a constructed model, \<open>encode\<close> raises the error of its last branch (the
  \<open>AttributeError\<close> of line 165, which the specification calls \<open>InvalidModalityError\<close>) if and
  only if \<open>cond_mod\<close> is neither \<open>''all''\<close> nor a registered modality name. In that case the
  outcome is the same for every model with these registered names and every batch: no
  encoder is called. \<open>encode\<close> returns no new model: it assigns no attribute of \<open>self\<close>.
\<close>

theorem encode_invalid_modality:
  assumes "GMC_init attrs cfg processors joint shared = Inr self" "distinct (map fst processors)"
  shows "((encode self inputs cond_mod = Inl AttributeError) =
            (cond_mod \<noteq> ''all'' \<and> cond_mod \<notin> fst ` set processors)) \<and>
         (cond_mod \<noteq> ''all'' \<and> cond_mod \<notin> fst ` set processors \<longrightarrow>
            (\<forall>self' inputs'. fst ` set (networks self') = fst ` set processors \<longrightarrow>
               encode self' inputs' cond_mod = Inl AttributeError))"
proof -
  have self: "self = (init_self cfg)\<lparr>networks := processors, joint_encoder := Some joint,
                                      shared_encoder := Some shared\<rparr>"
    using assms(1) unfolding GMC_init_success[OF assms(2)] by simp
  have sh: "shared_encoder self = Some shared" and jo: "joint_encoder self = Some joint"
    and nets: "networks self = processors"
    by (simp_all add: self)
  have 1: "(encode self inputs cond_mod = Inl AttributeError) =
            (cond_mod \<noteq> ''all'' \<and> cond_mod \<notin> fst ` set processors)"
  proof (cases "cond_mod = ''all''")
    case True
    then show ?thesis
      using encode_all[OF sh jo, of inputs] bindE_chain_not_AttributeError by simp
  next
    case False
    show ?thesis
    proof (cases "cond_mod \<in> fst ` set processors")
      case True
      then obtain net where "map_of (networks self) cond_mod = Some net"
        using nets by (metis map_of_eq_None_iff not_Some_eq)
      from encode_modality[OF sh this False, of inputs] True
      show ?thesis using bindE_chain_not_AttributeError by simp
    next
      case notin: False
      then show ?thesis
        using False encode_unknown[of cond_mod self inputs] nets by simp
    qed
  qed
  have 2: "cond_mod \<noteq> ''all'' \<and> cond_mod \<notin> fst ` set processors \<longrightarrow>
            (\<forall>self' inputs'. fst ` set (networks self') = fst ` set processors \<longrightarrow>
               encode self' inputs' cond_mod = Inl AttributeError)"
    using encode_unknown by simp
  from 1 2 show ?thesis by blast
qed

theorem encode_invalid_modality_witness:
  "GMC_init ex_attrs ex_config ex_processors (first_joint_encoder 2) (identity_encoder 1) =
     Inr ex_model \<and>
   distinct (map fst ex_processors) \<and>
   ''c'' \<noteq> ''all'' \<and> ''c'' \<notin> fst ` set ex_processors \<and>
   encode ex_model ex_inputs ''c'' = Inl AttributeError \<and>
   encode ex_model ex_inputs ''all'' \<noteq> Inl AttributeError"
proof -
  have d: "distinct (map fst ex_processors)"
    by (simp add: ex_processors_def)
  have c: "''c'' \<noteq> ''all'' \<and> ''c'' \<notin> fst ` set ex_processors"
    by (simp add: ex_processors_def)
  from encode_invalid_modality[OF ex_model_constructed d, of ex_inputs "''c''"]
       encode_invalid_modality[OF ex_model_constructed d, of ex_inputs "''all''"]
       ex_model_constructed d c
  show ?thesis by simp
qed

text \<open>
  Claim C2, evaluated on the code. The claim asks that \<open>encode(inputs, m)\<close> run the encoder
  of \<open>m\<close> over \<open>inputs.data[m]\<close>. Line 163 passes the whole mapping \<open>inputs.data\<close> instead: an
  encoder that accepts a tensor only raises in \<open>encode\<close>, while the same encoder on the same
  batch yields the embedding of that modality on lines 84 and 85 of \<open>forward\<close>.
\<close>

theorem encode_modality_gets_full_mapping:
  "encode ex_model ex_inputs ''a'' = Inl (Raised ''TypeError'') \<and>
   modality_z ex_model ex_inputs ''a'' = Inr [[1], [0]]"
  by (simp add: encode_def modality_z_def ex_model_fields ex_processors_def ex_inputs_def
      contains_def getitem_def getattr_def bindE_def apply_enc_def identity_encoder_def)

text \<open>
  Claim C5, evaluated on the code. The claim asks that \<open>encode\<close> return one embedding of shape
  \<open>(batch_size, latent_dim)\<close>. On a batch of size 2 with \<open>latent_dim = 1\<close>, the \<open>embedding\<close> of
  what \<open>encode(inputs, "all")\<close> returns is not a tensor but the whole output object of the
  shared head, which holds the tensor of shape \<open>(2, 1)\<close>: lines 160 and 163 do not take the
  \<open>embedding\<close> of the shared encoder's output, as lines 85 and 90 of \<open>forward\<close> do. And
  \<open>encode(inputs, "b")\<close> returns nothing: the encoder of the registered modality \<open>b\<close> is
  called with the whole mapping and raises.
\<close>

theorem encode_shapes_example:
  "encode ex_model ex_inputs ''all'' = Inr (ModelOutput (ModelOutput [[1], [0]])) \<and>
   has_shape 2 1 [[1], [0]] \<and>
   encode ex_model ex_inputs ''b'' = Inl (Raised ''TypeError'')"
  by (simp add: encode_def ex_model_fields ex_processors_def ex_inputs_def has_shape_def
      contains_def getitem_def getattr_def bindE_def apply_enc_def identity_encoder_def
      first_joint_encoder_def)

subsection \<open>The training step on an unregistered modality\<close>






subsection \<open>The loss on a batch of zeros\<close>

lemmas tensor_ops = sim_matrix_def exp_t_def div_scalar_def mm_t_def dot_def remove_diagonal_def
  sub_def ones_like_def eye_def same_shape_def bool_t_def masked_select_def view_def
  bindE_def loss_joint_mod_def cat0_def pos_sim_def mul_def sum_last_def div_v_def

lemma upt_4: "[0..<4] = [0, 1, 2, 3]"
  by (simp add: upt_rec)

lemma loss_joint_mod_zeros:
  "loss_joint_mod 1 ex_zeros ex_zeros = Inr [ln 3, ln 3, ln 3, ln 3]"
  by (simp add: ex_zeros_def tensor_ops upt_4 ln_div)

lemma has_shape_zeros: "has_shape 2 (Suc 0) ex_zeros"
  by (simp add: has_shape_def ex_zeros_def)

lemma infonce_no_modality: "infonce self [] joint_z = Inl TypeError"
  by (simp add: infonce_def bindE_def)

text \<open>
  Two modalities and a batch of two zero embeddings: every per-row loss is \<open>ln 3\<close>, and
  \<open>infonce\<close> returns \<open>2 * ln 3\<close>, the sum of the eight per-row losses divided by \<open>2B = 4\<close>, not by
  \<open>2B * n_modalities = 8\<close>.
\<close>

theorem infonce_mean_counterexample:
  "loss_joint_mod (temperature ex_model) ex_zeros ex_zeros = Inr [ln 3, ln 3, ln 3, ln 3] \<and>
   infonce ex_model [(''a'', ex_zeros), (''b'', ex_zeros)] ex_zeros = Inr (2 * ln 3) \<and>
   infonce ex_model [(''a'', ex_zeros), (''b'', ex_zeros)] ex_zeros \<noteq>
     Inr (sum_list (concat [[ln 3, ln 3, ln 3, ln 3], [ln 3, ln 3, ln 3, ln 3]]) / (2 * 2 * 2))"
  by (simp add: infonce_def getitem_def ex_model_fields loss_joint_mod_zeros bindE_def)

theorem infonce_mean_of_accumulated_witness:
  "0 < (2::nat) \<and> has_shape 2 1 ex_zeros \<and> [(''a'', ex_zeros), (''b'', ex_zeros)] \<noteq> [] \<and>
   distinct (map fst [(''a'', ex_zeros), (''b'', ex_zeros)]) \<and>
   has_shape 2 1 (snd (''a'', ex_zeros)) \<and> has_shape 2 1 (snd (''b'', ex_zeros)) \<and>
   infonce ex_model [(''a'', ex_zeros), (''b'', ex_zeros)] ex_zeros =
     Inr (sum_list (concat [[ln 3, ln 3, ln 3, ln 3], [ln 3, ln 3, ln 3, ln 3]]) / real (2 * 2))"
proof -
  let ?mz = "[(''a'', ex_zeros), (''b'', ex_zeros)]"
  have h: "0 < (2::nat)" "has_shape 2 1 ex_zeros" "?mz \<noteq> []" "distinct (map fst ?mz)"
    "\<forall>kz\<in>set ?mz. has_shape 2 1 (snd kz)"
    by (simp_all add: has_shape_zeros)
  from infonce_mean_of_accumulated[OF h, of ex_model]
  obtain ls where ls:
    "map (\<lambda>kz. loss_joint_mod (temperature ex_model) ex_zeros (snd kz)) ?mz = map Inr ls"
    "infonce ex_model ?mz ex_zeros = Inr (sum_list (concat ls) / real (2 * 2))"
    by blast
  from ls(1) have "ls = [[ln 3, ln 3, ln 3, ln 3], [ln 3, ln 3, ln 3, ln 3]]"
    by (cases ls; cases "tl ls") (auto simp: ex_model_fields loss_joint_mod_zeros)
  with ls(2) h show ?thesis by simp
qed

theorem infonce_returns_scalar_witness:
  "0 < (2::nat) \<and> has_shape 2 1 ex_zeros \<and> [(''a'', ex_zeros)] \<noteq> [] \<and>
   distinct (map fst [(''a'', ex_zeros)]) \<and>
   has_shape 2 1 (snd (''a'', ex_zeros)) \<and>
   (\<exists>loss. infonce ex_model [(''a'', ex_zeros)] ex_zeros = Inr loss)"
proof -
  let ?mz = "[(''a'', ex_zeros)]"
  have h: "0 < (2::nat)" "has_shape 2 1 ex_zeros" "?mz \<noteq> []" "distinct (map fst ?mz)"
    "\<forall>kz\<in>set ?mz. has_shape 2 1 (snd kz)"
    by (simp_all add: has_shape_zeros)
  from infonce_returns_scalar[OF h, of ex_model] h show ?thesis by simp
qed

subsection \<open>The per-row losses, and the loss when every modality equals the joint embedding\<close>

text \<open>
  An empty batch always fails (at the subtraction of the mask, or at the reshaping to zero
  rows), so the missing column count of a tensor without rows is never observed.
\<close>

lemma loss_joint_mod_empty_batch: "loss_joint_mod temp [] z = Inl RuntimeError"
  by (cases z) (simp_all add: loss_joint_mod_def cat0_def remove_diagonal_def sub_def
      ones_like_def eye_def same_shape_def sim_matrix_def exp_t_def div_scalar_def mm_t_def
      bool_t_def masked_select_def view_def bindE_def)

text \<open>
  The per-row losses in closed form: row \<open>i\<close> of the concatenated batch has the loss
  \<open>-log(pos[i] / sum over j other than i of exp(dot(out[i], out[j]) / temperature))\<close>.
  In exact arithmetic, when every modality embedding equals the joint embedding and
  \<open>B \<ge> 2\<close>, each denominator holds the positive pair and at least one more positive term,
  so every per-row loss and the mean are strictly positive; for \<open>B = 1\<close> the loss is zero.
  These are facts about real numbers: the rounding and overflow of the tensors' floating
  point numbers are not part of this model.
\<close>

lemma pos_sim_rows:
  assumes "has_shape B D joint_z" "has_shape B D z"
  shows "pos_sim temp joint_z z =
           Inr (map (\<lambda>k. exp (dot (joint_z ! k) (z ! k) / temp)) [0..<B] @
                map (\<lambda>k. exp (dot (joint_z ! k) (z ! k) / temp)) [0..<B])"
proof -
  have l: "length joint_z = B" "length z = B"
    using has_shapeD[OF assms(1)] has_shapeD[OF assms(2)] by simp_all
  have "map (\<lambda>x. exp (x / temp)) (sum_last (map2 (map2 (*)) joint_z z)) =
          map (\<lambda>k. exp (dot (joint_z ! k) (z ! k) / temp)) [0..<B]"
    using l by (intro nth_equalityI) (simp_all add: sum_last_def dot_def)
  then show ?thesis
    using has_shape_same[OF assms]
    by (simp add: pos_sim_def mul_def bindE_def Let_def)
qed

lemma loss_joint_mod_rows:
  assumes "0 < B" "has_shape B D joint_z" "has_shape B D z"
  shows "loss_joint_mod temp joint_z z =
           Inr (map (\<lambda>i. - ln ((map (\<lambda>k. exp (dot (joint_z ! k) (z ! k) / temp)) [0..<B] @
                                map (\<lambda>k. exp (dot (joint_z ! k) (z ! k) / temp)) [0..<B]) ! i /
                              (\<Sum>j\<in>{..<2 * B} - {i}.
                                  exp (dot ((joint_z @ z) ! i) ((joint_z @ z) ! j) / temp))))
                  [0..<2 * B])"
proof -
  let ?out = "joint_z @ z"
  let ?S = "sim_matrix temp ?out"
  let ?P = "map (\<lambda>k. exp (dot (joint_z ! k) (z ! k) / temp)) [0..<B]"
  have lj: "length joint_z = B" and lz: "length z = B"
    using has_shapeD[OF assms(2)] has_shapeD[OF assms(3)] by simp_all
  have len: "length ?out = 2 * B"
    using lj lz by simp
  have c: "cat0 joint_z z = Inr ?out"
    by (rule cat0_shapes[OF assms(2,3)])
  have rd: "remove_diagonal (length joint_z) ?S =
              Inr (map (\<lambda>i. take i (?S ! i) @ drop (Suc i) (?S ! i)) [0..<2 * B])"
    using remove_diagonal_sim[OF assms(1) len, of temp] lj by simp
  have sums: "sum_last (map (\<lambda>i. take i (?S ! i) @ drop (Suc i) (?S ! i)) [0..<2 * B]) =
                map (\<lambda>i. \<Sum>j\<in>{..<2 * B} - {i}. exp (dot (?out ! i) (?out ! j) / temp)) [0..<2 * B]"
  proof (intro nth_equalityI)
    fix i assume "i < length (sum_last (map (\<lambda>i. take i (?S ! i) @ drop (Suc i) (?S ! i)) [0..<2 * B]))"
    then have i: "i < 2 * B" by (simp add: sum_last_def)
    have "sum_list (take i (?S ! i) @ drop (Suc i) (?S ! i)) = (\<Sum>j\<in>{..<2 * B} - {i}. ?S ! i ! j)"
      using sum_list_without[of i "?S ! i"] i len by (simp add: length_sim_matrix_row)
    also have "\<dots> = (\<Sum>j\<in>{..<2 * B} - {i}. exp (dot (?out ! i) (?out ! j) / temp))"
      using i len by (intro sum.cong) (auto simp: sim_matrix_nth)
    finally show "sum_last (map (\<lambda>i. take i (?S ! i) @ drop (Suc i) (?S ! i)) [0..<2 * B]) ! i =
        map (\<lambda>i. \<Sum>j\<in>{..<2 * B} - {i}. exp (dot (?out ! i) (?out ! j) / temp)) [0..<2 * B] ! i"
      using i by (simp add: sum_last_def)
  qed (simp add: sum_last_def)
  have p: "pos_sim temp joint_z z = Inr (?P @ ?P)"
    by (rule pos_sim_rows[OF assms(2,3)])
  have "map2 (/) (?P @ ?P)
          (map (\<lambda>i. \<Sum>j\<in>{..<2 * B} - {i}. exp (dot (?out ! i) (?out ! j) / temp)) [0..<2 * B]) =
        map (\<lambda>i. (?P @ ?P) ! i / (\<Sum>j\<in>{..<2 * B} - {i}. exp (dot (?out ! i) (?out ! j) / temp)))
          [0..<2 * B]"
    by (intro nth_equalityI) simp_all
  then show ?thesis
    by (simp add: loss_joint_mod_def c rd p sums bindE_def div_v_def comp_def)
qed





lemma loss_joint_mod_single: "loss_joint_mod temp [r] [r] = Inr [0, 0]"
proof -
  have s: "has_shape 1 (length r) [r]"
    by (simp add: has_shape_def)
  have a: "{..<2} - {0::nat} = {1}" and b: "{..<2} - {Suc 0} = {0}"
    by auto
  have u: "[0..<2] = [0, 1]"
    by (simp add: upt_rec)
  show ?thesis
    using loss_joint_mod_rows[OF _ s s, of temp] by (simp add: u a b)
qed

lemma infonce_identical_single: "infonce self [(m, [r])] [r] = Inr 0"
  by (simp add: infonce_def getitem_def loss_joint_mod_single bindE_def)


subsection \<open>Overflow in the loss on floating-point scalars\<close>


lemmas fl_ops = sim_matrix_fl_def exp_t_fl_def div_scalar_fl_def mm_t_fl_def dot_fl_def sum_fl_def
  remove_diagonal_fl_def sub_t_fl_def sub_fl_def ones_like_fl_def eye_fl_def same_shape_def
  bool_t_fl_def masked_select_def view_def bindE_def loss_joint_mod_fl_def cat0_def
  pos_sim_fl_def mul_t_fl_def sum_last_fl_def div_v_fl_def

lemma overflow_small: "\<bar>x\<bar> < 2 ^ 128 \<Longrightarrow> overflow x = Fin x"
  by (auto simp: overflow_def)


lemma small_in_range:
  assumes "0 \<le> x" "x < 12"
  shows "\<bar>x\<bar> < (2::real) ^ 128"
proof -
  have "(12::real) < 2 ^ 128" by simp
  with assms show ?thesis by linarith
qed

lemma ln_3_bounds: "0 \<le> ln (3::real)" "ln (3::real) < 3"
  using ln_less_self[of "3::real"] by simp_all

lemma infonce_fl_zeros:
  "infonce_fl ex_model [(''a'', map (map Fin) ex_zeros)] (map (map Fin) ex_zeros) = Inr (Fin (ln 3)) \<and>
   infonce ex_model [(''a'', ex_zeros)] ex_zeros = Inr (ln 3)"
proof -
  have l: "loss_joint_mod_fl 1 [[Fin 0], [Fin 0]] [[Fin 0], [Fin 0]] =
             Inr [Fin (ln 3), Fin (ln 3), Fin (ln 3), Fin (ln 3)]"
    by (simp add: fl_ops upt_4 overflow_small ln_div)
  have r: "\<bar>ln 3 + ln (3::real)\<bar> < 2 ^ 128" "\<bar>ln 3 + ln 3 + ln (3::real)\<bar> < 2 ^ 128"
       "\<bar>ln 3 + ln 3 + ln 3 + ln (3::real)\<bar> < 2 ^ 128" "\<bar>4 * ln (3::real)\<bar> < 2 ^ 128"
       "\<bar>ln (3::real)\<bar> < 2 ^ 128"
    by (rule small_in_range; use ln_3_bounds in linarith)+
  show ?thesis
    using r
    by (simp add: infonce_fl_def infonce_def getitem_def ex_model_fields ex_zeros_def l
        loss_joint_mod_zeros[unfolded ex_zeros_def] bindE_def sum_fl_def overflow_small)
qed



end
